theory Spec2Isabelle
  imports Main
begin

text \<open>
  A model of \<^verbatim>\<open>activities/models/post.py\<close> (the \<^verbatim>\<open>Post\<close> entity: its state graph,
  local creation, fan-out, the outbound documents and the inbound Create and
  Delete handlers) and of \<^verbatim>\<open>users/migrations/0013_stator_indexes.py\<close>, with the
  properties proved of them. Database tables are lists of rows in an explicit
  store that every operation takes and returns; an exception is a value of type
  \<open>error\<close>, returned together with the store as the exception leaves it.
\<close>

section \<open>Values exchanged with the outside\<close>

text \<open>
  ActivityPub documents reach \<^verbatim>\<open>activities/models/post.py\<close> as parsed JSON: Python
  \<^verbatim>\<open>None\<close>, \<^verbatim>\<open>bool\<close>, \<^verbatim>\<open>int\<close>, \<^verbatim>\<open>str\<close>, \<^verbatim>\<open>list\<close> and \<^verbatim>\<open>dict\<close> with string keys. A
  dictionary is a map from keys to values, so two dictionaries with the same
  entries are the same value whatever the order they were written in.
  Non-integer numbers are not part of the model.
\<close>

datatype json =
    JNull
  | JBool bool
  | JNum int
  | JStr string
  | JArr "json list"
  | JObj "string \<Rightarrow> json option"

type_synonym dict = "string \<Rightarrow> json option"

text \<open>
  The exceptions the modelled code raises or lets through. \<open>DoesNotExist\<close> and
  \<open>MultipleObjectsReturned\<close> are those of the model that was queried.
\<close>

datatype error =
    KeyError
  | TypeError
  | ValueError
  | DoesNotExist
  | MultipleObjectsReturned
  | IntegrityError
  | ValidationError
  | TransportError
  | FieldDoesNotExist

text \<open>
  Python's \<^verbatim>\<open>==\<close> on JSON values: \<^verbatim>\<open>True == 1\<close> and \<^verbatim>\<open>False == 0\<close> hold, at any
  depth; everything else is equality of the values. \<open>py_norm\<close> maps a value to
  the representative of its class.
\<close>

primrec py_norm :: "json \<Rightarrow> json" where
  "py_norm JNull = JNull"
| "py_norm (JBool b) = JNum (if b then 1 else 0)"
| "py_norm (JNum n) = JNum n"
| "py_norm (JStr s) = JStr s"
| "py_norm (JArr xs) = JArr (map py_norm xs)"
| "py_norm (JObj m) = JObj (map_option py_norm \<circ> m)"

definition py_eq :: "json \<Rightarrow> json \<Rightarrow> bool" where
  "py_eq a b = (py_norm a = py_norm b)"

text \<open>
  \<^verbatim>\<open>data[key]\<close>: a dictionary without the key raises KeyError; every other JSON
  value indexed by a string raises TypeError.
\<close>

fun getitem :: "json \<Rightarrow> string \<Rightarrow> error + json" where
  "getitem (JObj m) k = (case m k of None \<Rightarrow> Inl KeyError | Some v \<Rightarrow> Inr v)"
| "getitem _ k = Inl TypeError"

text \<open>\<^verbatim>\<open>data.get(key, default)\<close> on a dictionary.\<close>

definition dict_get :: "dict \<Rightarrow> string \<Rightarrow> json \<Rightarrow> json" where
  "dict_get m k d = (case m k of None \<Rightarrow> d | Some v \<Rightarrow> v)"

text \<open>Truth value of an optional string (\<^verbatim>\<open>if self.summary\<close>, \<^verbatim>\<open>bool(summary)\<close>).\<close>

fun truthy :: "string option \<Rightarrow> bool" where
  "truthy None = False"
| "truthy (Some s) = (s \<noteq> [])"

text \<open>Decimal rendering of a primary key (\<^verbatim>\<open>{self.id}\<close> in a URL pattern).\<close>

definition digit_char :: "nat \<Rightarrow> char" where
  "digit_char d = ''0123456789'' ! d"

function str_nat :: "nat \<Rightarrow> string" where
  "str_nat n = (if n < 10 then [digit_char n] else str_nat (n div 10) @ [digit_char (n mod 10)])"
  by pat_completeness auto
termination
  by (relation "measure id") auto

declare str_nat.simps [simp del]

section \<open>Rows\<close>

text \<open>
  \<open>users.Identity\<close> and \<open>users.Follow\<close> are declared in other modules of the project;
  the fields below are the ones \<^verbatim>\<open>post.py\<close> reads (\<^verbatim>\<open>actor_uri\<close>, \<^verbatim>\<open>local\<close>;
  \<^verbatim>\<open>source\<close>, \<^verbatim>\<open>target\<close>).
\<close>

record identity =
  identity_pk :: nat
  actor_uri :: string
  identity_local :: bool

record follow =
  follow_pk :: nat
  source_id :: nat
  target_id :: nat

text \<open>\<^verbatim>\<open>PostStates\<close>: two states, one edge, and a retry interval on \<^verbatim>\<open>new\<close>.\<close>

datatype post_states = new | fanned_out

fun try_interval :: "post_states \<Rightarrow> nat option" where
  "try_interval new = Some 300"
| "try_interval fanned_out = None"

fun transitions_to :: "post_states \<Rightarrow> post_states list" where
  "transitions_to new = [fanned_out]"
| "transitions_to fanned_out = []"

datatype visibilities = Public | Unlisted | Followers | Mentioned

text \<open>
  A \<^verbatim>\<open>Post\<close> row. \<open>author_id\<close> is the foreign key behind \<^verbatim>\<open>author\<close>; \<open>to_ids\<close> and
  \<open>mentions_ids\<close> are the identities linked through the two many-to-many
  relations. Timestamps are integers. Column length limits are not modelled.
\<close>

record post =
  post_pk :: nat
  author_id :: nat
  state :: post_states
  local :: bool
  object_uri :: "string option"
  visibility :: visibilities
  content :: string
  sensitive :: bool
  summary :: "string option"
  url :: "string option"
  in_reply_to :: "string option"
  to_ids :: "nat list"
  mentions_ids :: "nat list"
  published :: int
  created :: int
  updated :: int

text \<open>
  \<open>FanOut\<close> and \<open>TimelineEvent\<close> are declared in other modules of the project.
  Modelled from the spec: a FanOut holds a recipient identity reference, a
  type (post delivery, like, boost) and a reference to the subject entity.
\<close>

datatype fan_out_types = Types_post | Types_like | Types_boost

record fan_out =
  identity_id :: nat
  fan_out_type :: fan_out_types
  subject_post :: nat

record timeline_event =
  event_identity :: nat
  event_post :: nat

record store =
  identities :: "identity list"
  follows :: "follow list"
  posts :: "post list"
  fan_outs :: "fan_out list"
  timeline_events :: "timeline_event list"

section \<open>Collaborators\<close>

text \<open>
  What \<^verbatim>\<open>post.py\<close> imports and calls but does not define: the HTML sanitiser,
  the two date functions and \<^verbatim>\<open>canonicalise\<close> of \<^verbatim>\<open>core.ld\<close>, the URL patterns of
  \<open>Identity\<close>, the clock, Python's \<^verbatim>\<open>str\<close> on a value that is not a string, and
  the network behind \<^verbatim>\<open>httpx.get\<close>. They are parameters of the model.
\<close>

record request =
  request_url :: json
  request_headers :: "(string \<times> string) list"
  follow_redirects :: bool

record response =
  status_code :: int
  response_json :: "error + json"

record env =
  sanitize_post :: "string \<Rightarrow> string"
  format_ld_date :: "int \<Rightarrow> string"
  parse_ld_date :: "json \<Rightarrow> error + int"
  canonicalise :: "json \<Rightarrow> error + json"
  identity_view_nice :: "identity \<Rightarrow> string"
  now :: int
  py_str :: "json \<Rightarrow> string"
  httpx_get :: "request \<Rightarrow> error + response"

section \<open>The object-relational layer\<close>

text \<open>
  A table is the list of its rows in insertion order. \<^verbatim>\<open>objects.get\<close> raises
  DoesNotExist on no match and MultipleObjectsReturned on several.
\<close>

definition objects_get :: "('a \<Rightarrow> bool) \<Rightarrow> 'a list \<Rightarrow> error + 'a" where
  "objects_get P rows =
    (case filter P rows of
       [] \<Rightarrow> Inl DoesNotExist
     | [r] \<Rightarrow> Inr r
     | _ \<Rightarrow> Inl MultipleObjectsReturned)"

text \<open>A primary key that no row of the table uses.\<close>

definition next_pk :: "nat list \<Rightarrow> nat" where
  "next_pk ks = Suc (fold max ks 0)"

text \<open>
  What a text column makes of a JSON value, on assignment and in a lookup:
  \<^verbatim>\<open>None\<close> is SQL NULL (a lookup by \<^verbatim>\<open>None\<close> is \<^verbatim>\<open>IS NULL\<close>), a string is
  itself, anything else goes through \<^verbatim>\<open>str\<close>.
\<close>

fun char_value :: "env \<Rightarrow> json \<Rightarrow> string option" where
  "char_value e JNull = None"
| "char_value e (JStr t) = Some t"
| "char_value e v = Some (py_str e v)"

text \<open>
  What a non-null boolean column makes of a JSON value when the row is
  saved: \<^verbatim>\<open>True\<close>, \<^verbatim>\<open>False\<close>, \<^verbatim>\<open>1\<close>, \<^verbatim>\<open>0\<close> and the strings Django accepts;
  \<^verbatim>\<open>None\<close> violates NOT NULL; everything else fails validation.
\<close>

fun boolean_value :: "json \<Rightarrow> error + bool" where
  "boolean_value (JBool b) = Inr b"
| "boolean_value (JNum n) =
     (if n = 1 then Inr True else if n = 0 then Inr False else Inl ValidationError)"
| "boolean_value (JStr t) =
     (if t \<in> {''t'', ''True'', ''1''} then Inr True
      else if t \<in> {''f'', ''False'', ''0''} then Inr False
      else Inl ValidationError)"
| "boolean_value JNull = Inl IntegrityError"
| "boolean_value _ = Inl ValidationError"

text \<open>
  \<open>object_uri\<close> is \<^verbatim>\<open>unique=True, null=True\<close>: no two rows hold the same non-null
  value.
\<close>

definition unique_ok :: "post list \<Rightarrow> post \<Rightarrow> bool" where
  "unique_ok rows p =
    (case object_uri p of
       None \<Rightarrow> True
     | Some u \<Rightarrow> filter (\<lambda>q. post_pk q \<noteq> post_pk p \<and> object_uri q = Some u) rows = [])"

text \<open>
  \<^verbatim>\<open>Post(author=..., content=..., local=...)\<close> with the declared defaults: the
  graph's initial state, public visibility, not sensitive, \<^verbatim>\<open>published\<close> the
  current time, nullable columns null.
\<close>

definition Post :: "env \<Rightarrow> nat \<Rightarrow> string \<Rightarrow> bool \<Rightarrow> post" where
  "Post e a c l =
    \<lparr>post_pk = 0, author_id = a, state = new, local = l, object_uri = None,
     visibility = Public, content = c, sensitive = False, summary = None, url = None,
     in_reply_to = None, to_ids = [], mentions_ids = [], published = now e,
     created = now e, updated = now e\<rparr>"

text \<open>
  \<^verbatim>\<open>Post.objects.create(...)\<close>: INSERT with a fresh primary key. The author must
  exist (foreign key) and \<open>object_uri\<close> must stay unique.
\<close>

definition objects_create :: "store \<Rightarrow> post \<Rightarrow> (error + post) \<times> store" where
  "objects_create s p0 =
    (let p = p0\<lparr>post_pk := next_pk (map post_pk (posts s))\<rparr>
     in if author_id p \<notin> set (map identity_pk (identities s)) then (Inl IntegrityError, s)
        else if \<not> unique_ok (posts s) p then (Inl IntegrityError, s)
        else (Inr p, s\<lparr>posts := posts s @ [p]\<rparr>))"

text \<open>
  \<^verbatim>\<open>post.save()\<close> on an instance that has a primary key: UPDATE of the row with
  that key, INSERT when there is none; \<^verbatim>\<open>updated\<close> is \<^verbatim>\<open>auto_now\<close>.
\<close>

definition save :: "env \<Rightarrow> store \<Rightarrow> post \<Rightarrow> (error + post) \<times> store" where
  "save e s p0 =
    (let p = p0\<lparr>updated := now e\<rparr>
     in if \<not> unique_ok (posts s) p then (Inl IntegrityError, s)
        else if post_pk p \<in> set (map post_pk (posts s))
        then (Inr p, s\<lparr>posts := map (\<lambda>q. if post_pk q = post_pk p then p else q) (posts s)\<rparr>)
        else (Inr p, s\<lparr>posts := posts s @ [p]\<rparr>))"

text \<open>
  \<^verbatim>\<open>post.delete()\<close>: the row goes, and with it the FanOut and TimelineEvent
  rows that reference it (Django's cascade; their \<^verbatim>\<open>on_delete\<close> is declared
  in those other modules).
\<close>

definition post_delete :: "store \<Rightarrow> post \<Rightarrow> store" where
  "post_delete s p =
    s\<lparr>posts := filter (\<lambda>q. post_pk q \<noteq> post_pk p) (posts s),
      fan_outs := filter (\<lambda>f. subject_post f \<noteq> post_pk p) (fan_outs s),
      timeline_events := filter (\<lambda>t. event_post t \<noteq> post_pk p) (timeline_events s)\<rparr>"

text \<open>\<^verbatim>\<open>post.author\<close> on an instance read from the table: a lookup by key.\<close>

definition post_author :: "store \<Rightarrow> post \<Rightarrow> error + identity" where
  "post_author s p = objects_get (\<lambda>a. identity_pk a = author_id p) (identities s)"

text \<open>
  Modelled from the spec: \<^verbatim>\<open>Identity.by_actor_uri\<close> is defined in another module of
  the project. The spec's \<^verbatim>\<open>resolve_or_create_identity(actor_uri)\<close> returns the local
  representation of a remote actor, creating one if it is not already known.
  A created identity is not local. A null identifier resolves to nothing.
\<close>

definition by_actor_uri :: "env \<Rightarrow> store \<Rightarrow> json \<Rightarrow> bool \<Rightarrow> (error + identity) \<times> store" where
  "by_actor_uri e s uri create =
    (case char_value e uri of
       None \<Rightarrow> (Inl DoesNotExist, s)
     | Some u \<Rightarrow>
        (case objects_get (\<lambda>a. actor_uri a = u) (identities s) of
           Inr a \<Rightarrow> (Inr a, s)
         | Inl DoesNotExist \<Rightarrow>
             if create
             then (let a = \<lparr>identity_pk = next_pk (map identity_pk (identities s)),
                            actor_uri = u, identity_local = False\<rparr>
                   in (Inr a, s\<lparr>identities := identities s @ [a]\<rparr>))
             else (Inl DoesNotExist, s)
         | Inl err \<Rightarrow> (Inl err, s)))"

text \<open>
  Modelled from the spec: \<^verbatim>\<open>transition_perform\<close> belongs to the scheduler, which
  is another module of the project. The spec calls it a direct administrative
  force-transition: the row's state becomes the given state.
\<close>

definition transition_perform :: "store \<Rightarrow> post \<Rightarrow> post_states \<Rightarrow> store" where
  "transition_perform s p st =
    s\<lparr>posts := map (\<lambda>q. if post_pk q = post_pk p then q\<lparr>state := st\<rparr> else q) (posts s)\<rparr>"

text \<open>
  \<^verbatim>\<open>FanOut.objects.acreate\<close> and \<^verbatim>\<open>TimelineEvent.add_post\<close> each record one row.
\<close>

definition fan_out_create :: "store \<Rightarrow> fan_out \<Rightarrow> store" where
  "fan_out_create s f = s\<lparr>fan_outs := fan_outs s @ [f]\<rparr>"

definition add_post :: "store \<Rightarrow> identity \<Rightarrow> post \<Rightarrow> store" where
  "add_post s a p =
    s\<lparr>timeline_events := timeline_events s @ [\<lparr>event_identity = identity_pk a, event_post = post_pk p\<rparr>]\<rparr>"

section \<open>Outbound documents\<close>

text \<open>
  \<^verbatim>\<open>Post.urls\<close>: \<^verbatim>\<open>object_uri = "{self.author.actor_uri}posts/{self.id}/"\<close> and
  \<^verbatim>\<open>view_nice = "{self.author.urls.view_nice}posts/{self.id}/"\<close>. The argument
  \<open>a\<close> is the identity \<^verbatim>\<open>self.author\<close> stands for.
\<close>

definition urls_object_uri :: "identity \<Rightarrow> post \<Rightarrow> string" where
  "urls_object_uri a p = actor_uri a @ ''posts/'' @ str_nat (post_pk p) @ ''/''"

definition urls_view_nice :: "env \<Rightarrow> identity \<Rightarrow> post \<Rightarrow> string" where
  "urls_view_nice e a p = identity_view_nice e a @ ''posts/'' @ str_nat (post_pk p) @ ''/''"

definition safe_content :: "env \<Rightarrow> post \<Rightarrow> string" where
  "safe_content e p = sanitize_post e (content p)"

definition json_opt :: "string option \<Rightarrow> json" where
  "json_opt v = (case v of None \<Rightarrow> JNull | Some s \<Rightarrow> JStr s)"

definition to_ap :: "env \<Rightarrow> identity \<Rightarrow> post \<Rightarrow> dict" where
  "to_ap e a p =
    (let val = Map.empty
          (''type'' \<mapsto> JStr ''Note'',
           ''id'' \<mapsto> json_opt (object_uri p),
           ''published'' \<mapsto> JStr (format_ld_date e (published p)),
           ''attributedTo'' \<mapsto> JStr (actor_uri a),
           ''content'' \<mapsto> JStr (safe_content e p),
           ''to'' \<mapsto> JStr ''as:Public'',
           ''as:sensitive'' \<mapsto> JBool (sensitive p),
           ''url'' \<mapsto> (if local p then JStr (urls_view_nice e a p) else json_opt (url p)))
     in if truthy (summary p) then val(''summary'' \<mapsto> JStr (the (summary p))) else val)"

text \<open>
  \<^verbatim>\<open>self.object_uri + "#create"\<close> raises TypeError when the column is null; the
  dictionary display evaluates it before \<^verbatim>\<open>"actor"\<close> and \<^verbatim>\<open>"object"\<close>.
\<close>

definition to_create_ap :: "env \<Rightarrow> identity \<Rightarrow> post \<Rightarrow> error + dict" where
  "to_create_ap e a p =
    (case object_uri p of
       None \<Rightarrow> Inl TypeError
     | Some u \<Rightarrow> Inr (Map.empty
          (''type'' \<mapsto> JStr ''Create'',
           ''id'' \<mapsto> JStr (u @ ''#create''),
           ''actor'' \<mapsto> JStr (actor_uri a),
           ''object'' \<mapsto> JObj (to_ap e a p))))"

section \<open>Local creation\<close>

text \<open>
  \<^verbatim>\<open>create_local\<close> runs inside \<^verbatim>\<open>transaction.atomic()\<close>: when the INSERT or the
  following \<^verbatim>\<open>save\<close> fails, the table is as it was before the call.
\<close>

definition create_local ::
  "env \<Rightarrow> store \<Rightarrow> identity \<Rightarrow> string \<Rightarrow> string option \<Rightarrow> (error + post) \<times> store" where
  "create_local e s author c sm =
    (case objects_create s
            ((Post e (identity_pk author) c True)
               \<lparr>summary := (if truthy sm then sm else None), sensitive := truthy sm\<rparr>) of
       (Inl err, _) \<Rightarrow> (Inl err, s)
     | (Inr p, s1) \<Rightarrow>
        (case save e s1 (p\<lparr>object_uri := Some (urls_object_uri author p),
                            url := Some (urls_view_nice e author p)\<rparr>) of
           (Inl err, _) \<Rightarrow> (Inl err, s)
         | (Inr p', s2) \<Rightarrow> (Inr p', s2)))"

section \<open>Fan-out\<close>

text \<open>
  \<^verbatim>\<open>afetch_full\<close>: the post by primary key, joined with its author
  (\<^verbatim>\<open>select_related\<close>; the author's domain is not read by the code below).
\<close>

definition afetch_full :: "store \<Rightarrow> post \<Rightarrow> error + (post \<times> identity)" where
  "afetch_full s p =
    objects_get (\<lambda>(q, a). post_pk q = post_pk p)
      [(q, a). q \<leftarrow> posts s, a \<leftarrow> identities s, identity_pk a = author_id q]"

text \<open>
  \<^verbatim>\<open>post.author.inbound_follows.select_related("source", "target")\<close>: the follows
  that target the author, each joined with both of its ends.
\<close>

definition inbound_follows :: "store \<Rightarrow> identity \<Rightarrow> (follow \<times> identity \<times> identity) list" where
  "inbound_follows s a =
    [(f, src, tgt). f \<leftarrow> follows s, target_id f = identity_pk a,
                    src \<leftarrow> identities s, identity_pk src = source_id f,
                    tgt \<leftarrow> identities s, identity_pk tgt = target_id f]"

definition afan_out :: "store \<Rightarrow> post \<Rightarrow> (error + unit) \<times> store" where
  "afan_out s p =
    (case afetch_full s p of
       Inl err \<Rightarrow> (Inl err, s)
     | Inr (q, a) \<Rightarrow>
        (let s1 = fold (\<lambda>(f, src, tgt) s'.
                          if identity_local src \<or> identity_local tgt
                          then fan_out_create s'
                                 \<lparr>identity_id = source_id f, fan_out_type = Types_post,
                                  subject_post = post_pk q\<rparr>
                          else s')
                       (inbound_follows s a) s;
             s2 = (if identity_local a
                   then fan_out_create s1
                          \<lparr>identity_id = author_id q, fan_out_type = Types_post,
                           subject_post = post_pk q\<rparr>
                   else s1)
         in (Inr (), s2)))"

definition handle_new :: "store \<Rightarrow> post \<Rightarrow> (error + post_states) \<times> store" where
  "handle_new s p =
    (case afan_out s p of
       (Inl err, s') \<Rightarrow> (Inl err, s')
     | (Inr _, s') \<Rightarrow> (Inr fanned_out, s'))"

text \<open>The handlers \<^verbatim>\<open>PostStates\<close> defines: \<^verbatim>\<open>handle_new\<close>, and none for \<^verbatim>\<open>fanned_out\<close>.\<close>

fun handler_for :: "post_states \<Rightarrow> (store \<Rightarrow> post \<Rightarrow> (error + post_states) \<times> store) option" where
  "handler_for new = Some handle_new"
| "handler_for fanned_out = None"

text \<open>
  Modelled from the spec: the scheduler is another module of the project. One
  run on a claimed entity (step 3 of the spec's algorithm): the handler bound to
  the current state runs; a returned state must be a declared edge and is then
  committed; a handler that raises leaves the state as it is; a state without a
  handler has nothing to run.
\<close>

definition scheduler_run :: "store \<Rightarrow> post \<Rightarrow> (error + unit) \<times> store" where
  "scheduler_run s p =
    (case handler_for (state p) of
       None \<Rightarrow> (Inr (), s)
     | Some h \<Rightarrow>
        (case h s p of
           (Inl err, s') \<Rightarrow> (Inl err, s')
         | (Inr st, s') \<Rightarrow>
             if st \<in> set (transitions_to (state p))
             then (Inr (), transition_perform s' p st)
             else (Inl ValueError, s')))"

section \<open>Inbound documents\<close>

text \<open>\<^verbatim>\<open>sanitize_post(data["content"])\<close>: the sanitiser takes text only.\<close>

fun sanitize_json :: "env \<Rightarrow> json \<Rightarrow> error + string" where
  "sanitize_json e (JStr t) = Inr (sanitize_post e t)"
| "sanitize_json e _ = Inl TypeError"

text \<open>
  The branch \<^verbatim>\<open>if update or created\<close> of \<^verbatim>\<open>by_ap\<close>: the assignments, then
  \<^verbatim>\<open>save\<close>, where the boolean column converts its value. There is no
  transaction around it.
\<close>

definition by_ap_update :: "env \<Rightarrow> store \<Rightarrow> dict \<Rightarrow> post \<Rightarrow> (error + post) \<times> store" where
  "by_ap_update e s m p =
    (case getitem (JObj m) ''content'' of
       Inl err \<Rightarrow> (Inl err, s)
     | Inr c \<Rightarrow>
    (case sanitize_json e c of
       Inl err \<Rightarrow> (Inl err, s)
     | Inr c' \<Rightarrow>
    (case parse_ld_date e (dict_get m ''published'' JNull) of
       Inl err \<Rightarrow> (Inl err, s)
     | Inr t \<Rightarrow>
    (case boolean_value (dict_get m ''as:sensitive'' (JBool False)) of
       Inl err \<Rightarrow> (Inl err, s)
     | Inr b \<Rightarrow>
        save e s (p\<lparr>content := c',
                    summary := char_value e (dict_get m ''summary'' JNull),
                    sensitive := b,
                    url := char_value e (dict_get m ''url'' JNull),
                    published := t\<rparr>)))))"

text \<open>
  The \<^verbatim>\<open>except cls.DoesNotExist\<close> branch of \<^verbatim>\<open>by_ap\<close> with \<^verbatim>\<open>create\<close> set: the author
  is resolved first, then the row is inserted as a remote post.
\<close>

definition by_ap_create :: "env \<Rightarrow> store \<Rightarrow> dict \<Rightarrow> json \<Rightarrow> (error + post) \<times> store" where
  "by_ap_create e s m i =
    (case getitem (JObj m) ''attributedTo'' of
       Inl err \<Rightarrow> (Inl err, s)
     | Inr at \<Rightarrow>
    (case by_actor_uri e s at True of
       (Inl err, s1) \<Rightarrow> (Inl err, s1)
     | (Inr author, s1) \<Rightarrow>
    (case getitem (JObj m) ''content'' of
       Inl err \<Rightarrow> (Inl err, s1)
     | Inr c \<Rightarrow>
    (case sanitize_json e c of
       Inl err \<Rightarrow> (Inl err, s1)
     | Inr c' \<Rightarrow>
        objects_create s1
          ((Post e (identity_pk author) c' False)\<lparr>object_uri := char_value e i\<rparr>)))))"

fun by_ap :: "env \<Rightarrow> store \<Rightarrow> json \<Rightarrow> bool \<Rightarrow> bool \<Rightarrow> (error + post) \<times> store" where
  "by_ap e s (JObj m) create update =
    (case getitem (JObj m) ''id'' of
       Inl err \<Rightarrow> (Inl err, s)
     | Inr i \<Rightarrow>
        (case objects_get (\<lambda>q. object_uri q = char_value e i) (posts s) of
           Inr p \<Rightarrow> if update then by_ap_update e s m p else (Inr p, s)
         | Inl DoesNotExist \<Rightarrow>
             if create
             then (case by_ap_create e s m i of
                     (Inl err, s1) \<Rightarrow> (Inl err, s1)
                   | (Inr p, s1) \<Rightarrow> by_ap_update e s1 m p)
             else (Inl KeyError, s)
         | Inl err \<Rightarrow> (Inl err, s)))"
| "by_ap e s _ create update = (Inl TypeError, s)"

text \<open>
  \<^verbatim>\<open>by_object_uri\<close>: the local lookup first; with \<^verbatim>\<open>fetch\<close>, one GET of the URI
  with \<^verbatim>\<open>Accept: application/json\<close>, following redirects.
\<close>

definition fetch_request :: "json \<Rightarrow> request" where
  "fetch_request uri =
    \<lparr>request_url = uri, request_headers = [(''Accept'', ''application/json'')],
     follow_redirects = True\<rparr>"

definition by_object_uri :: "env \<Rightarrow> store \<Rightarrow> json \<Rightarrow> bool \<Rightarrow> (error + post) \<times> store" where
  "by_object_uri e s uri fetch =
    (case objects_get (\<lambda>q. object_uri q = char_value e uri) (posts s) of
       Inr p \<Rightarrow> (Inr p, s)
     | Inl DoesNotExist \<Rightarrow>
         if fetch
         then (case httpx_get e (fetch_request uri) of
                 Inl err \<Rightarrow> (Inl err, s)
               | Inr r \<Rightarrow>
                   if 200 \<le> status_code r \<and> status_code r < 300
                   then (case response_json r of
                           Inl err \<Rightarrow> (Inl err, s)
                         | Inr body \<Rightarrow>
                             (case canonicalise e body of
                                Inl err \<Rightarrow> (Inl err, s)
                              | Inr doc \<Rightarrow> by_ap e s doc True True))
                   else (Inl DoesNotExist, s))
         else (Inl DoesNotExist, s)
     | Inl err \<Rightarrow> (Inl err, s))"

text \<open>
  \<^verbatim>\<open>Follow.objects.filter(target=post.author, source__local=True)\<close>, each follow
  with the source the join found.
\<close>

definition local_follows :: "store \<Rightarrow> identity \<Rightarrow> (follow \<times> identity) list" where
  "local_follows s a =
    [(f, src). f \<leftarrow> follows s, target_id f = identity_pk a,
               src \<leftarrow> identities s, identity_pk src = source_id f, identity_local src]"

definition handle_create_ap :: "env \<Rightarrow> store \<Rightarrow> json \<Rightarrow> (error + unit) \<times> store" where
  "handle_create_ap e s data =
    (case getitem data ''actor'' of
       Inl err \<Rightarrow> (Inl err, s)
     | Inr actor \<Rightarrow>
    (case getitem data ''object'' of
       Inl err \<Rightarrow> (Inl err, s)
     | Inr obj \<Rightarrow>
    (case getitem obj ''attributedTo'' of
       Inl err \<Rightarrow> (Inl err, s)
     | Inr at \<Rightarrow>
        if \<not> py_eq actor at then (Inl ValueError, s)
        else
          (case by_ap e s obj True True of
             (Inl err, s1) \<Rightarrow> (Inl err, s1)
           | (Inr p, s1) \<Rightarrow>
              (case post_author s1 p of
                 Inl err \<Rightarrow> (Inl err, s1)
               | Inr a \<Rightarrow>
                  (let s2 = fold (\<lambda>(f, src) s'. add_post s' src p) (local_follows s1 a) s1
                   in (Inr (), transition_perform s2 p fanned_out)))))))"

definition handle_delete_ap :: "env \<Rightarrow> store \<Rightarrow> json \<Rightarrow> (error + unit) \<times> store" where
  "handle_delete_ap e s data =
    (case getitem data ''object'' of
       Inl err \<Rightarrow> (Inl err, s)
     | Inr obj \<Rightarrow>
    (case getitem obj ''id'' of
       Inl err \<Rightarrow> (Inl err, s)
     | Inr i \<Rightarrow>
    (case by_object_uri e s i False of
       (Inl DoesNotExist, s1) \<Rightarrow> (Inr (), s1)
     | (Inl err, s1) \<Rightarrow> (Inl err, s1)
     | (Inr p, s1) \<Rightarrow>
        (case post_author s1 p of
           Inl err \<Rightarrow> (Inl err, s1)
         | Inr a \<Rightarrow>
            (case getitem data ''actor'' of
               Inl err \<Rightarrow> (Inl err, s1)
             | Inr actor \<Rightarrow>
                 if \<not> py_eq (JStr (actor_uri a)) actor then (Inl ValueError, s1)
                 else (Inr (), post_delete s1 p))))))"

text \<open>
  \<^verbatim>\<open>debug_fetch\<close>: the same GET for a stored post; a response outside 2xx gives
  \<^verbatim>\<open>None\<close>, and nothing is created (\<^verbatim>\<open>create\<close> keeps its default).
\<close>

definition debug_fetch :: "env \<Rightarrow> store \<Rightarrow> post \<Rightarrow> (error + post option) \<times> store" where
  "debug_fetch e s p =
    (case httpx_get e (fetch_request (json_opt (object_uri p))) of
       Inl err \<Rightarrow> (Inl err, s)
     | Inr r \<Rightarrow>
         if 200 \<le> status_code r \<and> status_code r < 300
         then (case response_json r of
                 Inl err \<Rightarrow> (Inl err, s)
               | Inr body \<Rightarrow>
                   (case canonicalise e body of
                      Inl err \<Rightarrow> (Inl err, s)
                    | Inr doc \<Rightarrow>
                        (case by_ap e s doc False True of
                           (Inl err, s1) \<Rightarrow> (Inl err, s1)
                         | (Inr p', s1) \<Rightarrow> (Inr (Some p'), s1))))
         else (Inr None, s))"

section \<open>Schema migration\<close>

text \<open>
  \<^verbatim>\<open>users/migrations/0013_stator_indexes.py\<close> as data: a list of operations on
  the schema state, which maps a model name to its fields and its
  \<^verbatim>\<open>index_together\<close>. \<^verbatim>\<open>AlterField\<close> replaces a field of an existing model;
  \<^verbatim>\<open>AlterIndexTogether\<close> replaces the model's set of composite indexes, whose
  columns must exist. A missing model is a KeyError, a missing field a
  FieldDoesNotExist.
\<close>

datatype field_kind = BooleanField | DateTimeField | StateField | OtherField

record field_def =
  field_kind :: field_kind
  db_index :: bool
  field_default :: "json option"
  field_null :: bool

record model_state =
  model_fields :: "string \<Rightarrow> field_def option"
  index_together :: "string list set"

type_synonym project_state = "string \<Rightarrow> model_state option"

datatype operation =
    AlterField string string field_def
  | AlterIndexTogether string "string list set"

fun state_forwards :: "operation \<Rightarrow> project_state \<Rightarrow> error + project_state" where
  "state_forwards (AlterField model_name name field) st =
    (case st model_name of
       None \<Rightarrow> Inl KeyError
     | Some ms \<Rightarrow>
        (case model_fields ms name of
           None \<Rightarrow> Inl FieldDoesNotExist
         | Some _ \<Rightarrow>
             Inr (st(model_name \<mapsto> ms\<lparr>model_fields := (model_fields ms)(name \<mapsto> field)\<rparr>))))"
| "state_forwards (AlterIndexTogether name together) st =
    (case st name of
       None \<Rightarrow> Inl KeyError
     | Some ms \<Rightarrow>
        if \<exists>t \<in> together. \<exists>c \<in> set t. model_fields ms c = None then Inl FieldDoesNotExist
        else Inr (st(name \<mapsto> ms\<lparr>index_together := together\<rparr>)))"

fun apply_operations :: "operation list \<Rightarrow> project_state \<Rightarrow> error + project_state" where
  "apply_operations [] st = Inr st"
| "apply_operations (op # ops) st =
    (case state_forwards op st of
       Inl err \<Rightarrow> Inl err
     | Inr st' \<Rightarrow> apply_operations ops st')"

text \<open>\<^verbatim>\<open>models.BooleanField(db_index=True, default=True)\<close>\<close>

definition state_ready_field :: field_def where
  "state_ready_field =
    \<lparr>field_kind = BooleanField, db_index = True, field_default = Some (JBool True),
     field_null = False\<rparr>"

text \<open>\<^verbatim>\<open>("state_ready", "state_locked_until", "state")\<close>\<close>

definition stator_index :: "string list" where
  "stator_index = [''state_ready'', ''state_locked_until'', ''state'']"

definition Migration_operations :: "operation list" where
  "Migration_operations =
    [AlterField ''block'' ''state_ready'' state_ready_field,
     AlterField ''domain'' ''state_ready'' state_ready_field,
     AlterField ''follow'' ''state_ready'' state_ready_field,
     AlterField ''identity'' ''state_ready'' state_ready_field,
     AlterField ''inboxmessage'' ''state_ready'' state_ready_field,
     AlterField ''passwordreset'' ''state_ready'' state_ready_field,
     AlterField ''report'' ''state_ready'' state_ready_field,
     AlterIndexTogether ''domain'' {stator_index},
     AlterIndexTogether ''inboxmessage'' {stator_index},
     AlterIndexTogether ''passwordreset'' {stator_index},
     AlterIndexTogether ''report'' {stator_index}]"

definition migrate :: "project_state \<Rightarrow> error + project_state" where
  "migrate st = apply_operations Migration_operations st"

text \<open>The models the migration touches, and what it makes of each of them.\<close>

definition altered_models :: "string list" where
  "altered_models =
    [''block'', ''domain'', ''follow'', ''identity'', ''inboxmessage'', ''passwordreset'',
     ''report'']"

definition migrated :: "project_state \<Rightarrow> string \<Rightarrow> model_state option" where
  "migrated st m =
    (if m \<in> set altered_models
     then (case st m of
             None \<Rightarrow> None
           | Some ms \<Rightarrow>
              (let ms1 = ms\<lparr>model_fields := (model_fields ms)(''state_ready'' \<mapsto> state_ready_field)\<rparr>
               in Some (if m \<in> {''domain'', ''inboxmessage'', ''passwordreset'', ''report''}
                        then ms1\<lparr>index_together := {stator_index}\<rparr> else ms1)))
     else st m)"

text \<open>
  The requirement on a schedulable entity table, as a predicate on one table of
  the schema state: a \<^verbatim>\<open>state\<close> column, a boolean \<^verbatim>\<open>state_ready\<close> defaulting to true,
  a nullable timestamp \<^verbatim>\<open>state_locked_until\<close>, and a composite index on
  \<^verbatim>\<open>(state_ready, state_locked_until, state)\<close>.
\<close>

definition scheduling_columns :: "model_state \<Rightarrow> bool" where
  "scheduling_columns ms =
    ((case model_fields ms ''state'' of None \<Rightarrow> False | Some f \<Rightarrow> field_kind f = StateField)
     \<and> (case model_fields ms ''state_ready'' of
          None \<Rightarrow> False
        | Some f \<Rightarrow> field_kind f = BooleanField \<and> field_default f = Some (JBool True))
     \<and> (case model_fields ms ''state_locked_until'' of
          None \<Rightarrow> False
        | Some f \<Rightarrow> field_kind f = DateTimeField \<and> field_null f)
     \<and> stator_index \<in> index_together ms)"

text \<open>
  A table that has the three columns by name, whatever their types: enough for
  every operation of the migration to apply to it.
\<close>

definition has_columns :: "model_state \<Rightarrow> bool" where
  "has_columns ms =
    (model_fields ms ''state_ready'' \<noteq> None \<and> model_fields ms ''state_locked_until'' \<noteq> None
     \<and> model_fields ms ''state'' \<noteq> None)"

section \<open>Example data\<close>

text \<open>
  A small instance: three local identities, two of them following the first,
  and collaborators that answer every fetch with 404.
\<close>

definition demo_env :: env where
  "demo_env =
    \<lparr>sanitize_post = (\<lambda>t. t),
     format_ld_date = (\<lambda>t. ''2022-11-17T04:18:00Z''),
     parse_ld_date = (\<lambda>v. case v of JStr t \<Rightarrow> Inr 0 | _ \<Rightarrow> Inl TypeError),
     canonicalise = (\<lambda>v. Inr v),
     identity_view_nice = (\<lambda>a. ''/@user/''),
     now = 0,
     py_str = (\<lambda>v. ''?''),
     httpx_get = (\<lambda>r. Inr \<lparr>status_code = 404, response_json = Inl ValueError\<rparr>)\<rparr>"

definition alice :: identity where
  "alice = \<lparr>identity_pk = 1, actor_uri = ''https://example.com/@alice/'', identity_local = True\<rparr>"

definition bob :: identity where
  "bob = \<lparr>identity_pk = 2, actor_uri = ''https://example.com/@bob/'', identity_local = True\<rparr>"

definition carol :: identity where
  "carol = \<lparr>identity_pk = 3, actor_uri = ''https://example.com/@carol/'', identity_local = True\<rparr>"

definition demo_store :: store where
  "demo_store =
    \<lparr>identities = [alice, bob, carol],
     follows = [\<lparr>follow_pk = 1, source_id = 2, target_id = 1\<rparr>,
                \<lparr>follow_pk = 2, source_id = 3, target_id = 1\<rparr>],
     posts = [], fan_outs = [], timeline_events = []\<rparr>"

definition demo_post :: post where
  "demo_post =
    \<lparr>post_pk = 1, author_id = 1, state = new, local = True,
     object_uri = Some ''https://example.com/@alice/posts/1/'',
     visibility = Public, content = ''hello'', sensitive = False, summary = None,
     url = Some ''/@user/posts/1/'', in_reply_to = None, to_ids = [], mentions_ids = [],
     published = 0, created = 0, updated = 0\<rparr>"

definition demo_store_posted :: store where
  "demo_store_posted = demo_store\<lparr>posts := [demo_post]\<rparr>"

text \<open>Inbound activities: a Create from a remote actor, and variations on it.\<close>

definition demo_note :: dict where
  "demo_note =
    Map.empty
      (''id'' \<mapsto> JStr ''https://remote.test/notes/7'',
       ''attributedTo'' \<mapsto> JStr ''https://remote.test/@dave'',
       ''content'' \<mapsto> JStr ''hi'',
       ''published'' \<mapsto> JStr ''2022-11-17T04:18:00Z'')"

definition demo_create :: json where
  "demo_create =
    JObj (Map.empty
      (''type'' \<mapsto> JStr ''Create'',
       ''actor'' \<mapsto> JStr ''https://remote.test/@dave'',
       ''object'' \<mapsto> JObj demo_note))"

definition demo_create_forged :: json where
  "demo_create_forged =
    JObj (Map.empty
      (''type'' \<mapsto> JStr ''Create'',
       ''actor'' \<mapsto> JStr ''https://remote.test/@eve'',
       ''object'' \<mapsto> JObj demo_note))"

definition demo_delete :: "string \<Rightarrow> string \<Rightarrow> json" where
  "demo_delete actor i =
    JObj (Map.empty
      (''type'' \<mapsto> JStr ''Delete'',
       ''actor'' \<mapsto> JStr actor,
       ''object'' \<mapsto> JObj (Map.empty(''id'' \<mapsto> JStr i))))"

text \<open>What the store holds once \<^verbatim>\<open>by_ap\<close> has created the post of \<open>demo_note\<close>.\<close>

definition dave :: identity where
  "dave = \<lparr>identity_pk = 4, actor_uri = ''https://remote.test/@dave'', identity_local = False\<rparr>"

definition demo_remote_post :: post where
  "demo_remote_post =
    \<lparr>post_pk = 1, author_id = 4, state = new, local = False,
     object_uri = Some ''https://remote.test/notes/7'',
     visibility = Public, content = ''hi'', sensitive = False, summary = None,
     url = None, in_reply_to = None, to_ids = [], mentions_ids = [],
     published = 0, created = 0, updated = 0\<rparr>"

definition demo_store_received :: store where
  "demo_store_received =
     demo_store\<lparr>identities := [alice, bob, carol, dave], posts := [demo_remote_post]\<rparr>"

text \<open>The same Create without a \<^verbatim>\<open>published\<close> date, which \<open>demo_env\<close> cannot parse.\<close>

definition demo_create_undated :: json where
  "demo_create_undated =
    JObj (Map.empty
      (''type'' \<mapsto> JStr ''Create'',
       ''actor'' \<mapsto> JStr ''https://remote.test/@dave'',
       ''object'' \<mapsto> JObj (demo_note(''published'' := None))))"

text \<open>
  Schema states before the migration: a table with the three scheduling columns
  and a given \<^verbatim>\<open>index_together\<close>; a schema in which \<^verbatim>\<open>block\<close>, \<^verbatim>\<open>follow\<close> and
  \<^verbatim>\<open>identity\<close> have the composite index already; and one in which no table has it.
\<close>

definition stator_table :: "string list set \<Rightarrow> model_state" where
  "stator_table ix =
    \<lparr>model_fields = Map.empty
       (''state'' \<mapsto> \<lparr>field_kind = StateField, db_index = False, field_default = None,
                        field_null = False\<rparr>,
        ''state_ready'' \<mapsto> \<lparr>field_kind = BooleanField, db_index = False,
                              field_default = Some (JBool True), field_null = False\<rparr>,
        ''state_locked_until'' \<mapsto> \<lparr>field_kind = DateTimeField, db_index = False,
                                     field_default = None, field_null = True\<rparr>),
     index_together = ix\<rparr>"

definition schema_before :: project_state where
  "schema_before =
    Map.empty
      (''block'' \<mapsto> stator_table {stator_index},
       ''domain'' \<mapsto> stator_table {},
       ''follow'' \<mapsto> stator_table {stator_index},
       ''identity'' \<mapsto> stator_table {stator_index},
       ''inboxmessage'' \<mapsto> stator_table {},
       ''passwordreset'' \<mapsto> stator_table {},
       ''report'' \<mapsto> stator_table {})"

definition schema_bare :: project_state where
  "schema_bare = (\<lambda>m. if m \<in> set altered_models then Some (stator_table {}) else None)"

section \<open>Properties\<close>

lemma dom_to_ap:
  "dom (to_ap e a p) =
     {''type'', ''id'', ''published'', ''attributedTo'', ''content'', ''to'',
      ''as:sensitive'', ''url''} \<union> (if truthy (summary p) then {''summary''} else {})"
  by (auto simp: to_ap_def Let_def split: if_splits)

text \<open>
  C10. Whatever the post's visibility and recipients, the outbound document's
  \<^verbatim>\<open>to\<close> field is the constant \<^verbatim>\<open>as:Public\<close>.
\<close>

theorem to_ap_to_public:
  "to_ap e a (p\<lparr>visibility := v, to_ids := r\<rparr>) ''to'' = Some (JStr ''as:Public'')"
  by (simp add: to_ap_def Let_def)

subsection \<open>Helper facts\<close>

lemma py_eq_JStr: "py_eq (JStr u) v \<longleftrightarrow> v = JStr u"
  by (cases v) (auto simp: py_eq_def)

lemma objects_get_none: "filter P rows = [] \<Longrightarrow> objects_get P rows = Inl DoesNotExist"
  by (simp add: objects_get_def)

lemma objects_get_in:
  assumes "objects_get P rows = Inr r"
  shows "r \<in> set rows \<and> P r"
proof -
  from assms have "filter P rows = [r]"
    by (auto simp: objects_get_def split: list.splits)
  then have "r \<in> set (filter P rows)" by simp
  then show ?thesis by simp
qed

lemma by_object_uri_local_only:
  "by_object_uri e s uri False =
     (case objects_get (\<lambda>q. object_uri q = char_value e uri) (posts s) of
        Inr p \<Rightarrow> (Inr p, s) | Inl err \<Rightarrow> (Inl err, s))"
  by (simp add: by_object_uri_def split: sum.splits error.splits)

text \<open>The example Create, run through \<^verbatim>\<open>by_ap\<close> on the example store.\<close>

lemma demo_by_ap:
  "by_ap demo_env demo_store (JObj demo_note) True True = (Inr demo_remote_post, demo_store_received)"
  by (simp add: by_ap_create_def by_ap_update_def by_actor_uri_def objects_create_def save_def
        objects_get_def Let_def Post_def next_pk_def unique_ok_def dict_get_def
        demo_env_def demo_store_def demo_note_def demo_remote_post_def demo_store_received_def
        alice_def bob_def carol_def dave_def)

subsection \<open>Inbound Create: the actor must be the author\<close>

text \<open>
  C2. An inbound Create whose \<^verbatim>\<open>actor\<close> is not equal to its
  \<^verbatim>\<open>object.attributedTo\<close> makes \<^verbatim>\<open>handle_create_ap\<close> raise ValueError; the store it
  leaves is the store it found, so no Post row was created.
\<close>

theorem handle_create_ap_actor_mismatch:
  assumes "getitem data ''actor'' = Inr actor"
    and "getitem data ''object'' = Inr obj"
    and "getitem obj ''attributedTo'' = Inr at"
    and "\<not> py_eq actor at"
  shows "handle_create_ap e s data = (Inl ValueError, s)"
  using assms by (simp add: handle_create_ap_def)

theorem handle_create_ap_actor_mismatch_witness:
  "getitem demo_create_forged ''actor'' = Inr (JStr ''https://remote.test/@eve'')
   \<and> getitem demo_create_forged ''object'' = Inr (JObj demo_note)
   \<and> getitem (JObj demo_note) ''attributedTo'' = Inr (JStr ''https://remote.test/@dave'')
   \<and> \<not> py_eq (JStr ''https://remote.test/@eve'') (JStr ''https://remote.test/@dave'')
   \<and> handle_create_ap demo_env demo_store demo_create_forged = (Inl ValueError, demo_store)"
  using handle_create_ap_actor_mismatch
          [of demo_create_forged "JStr ''https://remote.test/@eve''" "JObj demo_note"
              "JStr ''https://remote.test/@dave''" demo_env demo_store]
  by (simp add: demo_create_forged_def demo_note_def py_eq_def)

subsection \<open>Inbound Delete\<close>

text \<open>
  C5. An inbound Delete whose \<^verbatim>\<open>object.id\<close> matches no stored post returns
  normally and leaves the store as it was.
\<close>

theorem handle_delete_ap_unknown:
  assumes "getitem data ''object'' = Inr obj"
    and "getitem obj ''id'' = Inr i"
    and "filter (\<lambda>q. object_uri q = char_value e i) (posts s) = []"
  shows "handle_delete_ap e s data = (Inr (), s)"
  using assms by (simp add: handle_delete_ap_def by_object_uri_local_only objects_get_none)

theorem handle_delete_ap_unknown_witness:
  "getitem (demo_delete ''https://remote.test/@dave'' ''https://remote.test/notes/7'') ''object''
      = Inr (JObj (Map.empty(''id'' \<mapsto> JStr ''https://remote.test/notes/7'')))
   \<and> filter (\<lambda>q. object_uri q = char_value demo_env (JStr ''https://remote.test/notes/7''))
        (posts demo_store_posted) = []
   \<and> handle_delete_ap demo_env demo_store_posted
        (demo_delete ''https://remote.test/@dave'' ''https://remote.test/notes/7'')
      = (Inr (), demo_store_posted)"
  using handle_delete_ap_unknown
          [of "demo_delete ''https://remote.test/@dave'' ''https://remote.test/notes/7''"
              "JObj (Map.empty(''id'' \<mapsto> JStr ''https://remote.test/notes/7''))"
              "JStr ''https://remote.test/notes/7''" demo_env demo_store_posted]
  by (simp add: demo_delete_def demo_store_posted_def demo_post_def)

text \<open>
  C6. An inbound Delete whose \<^verbatim>\<open>object.id\<close> matches a stored post \<open>p\<close> with author
  \<open>a\<close>: when the \<^verbatim>\<open>actor\<close> is anything but the author's actor URI the call raises
  ValueError and the store is untouched; when it is the author's actor URI the
  post is deleted; and the post's row is gone after the call only in that
  second case.
\<close>

theorem handle_delete_ap_actor:
  assumes "getitem data ''object'' = Inr obj"
    and "getitem obj ''id'' = Inr i"
    and "objects_get (\<lambda>q. object_uri q = char_value e i) (posts s) = Inr p"
    and "post_author s p = Inr a"
  shows "(\<forall>actor. getitem data ''actor'' = Inr actor \<and> actor \<noteq> JStr (actor_uri a) \<longrightarrow>
            handle_delete_ap e s data = (Inl ValueError, s))
       \<and> (getitem data ''actor'' = Inr (JStr (actor_uri a)) \<longrightarrow>
            handle_delete_ap e s data = (Inr (), post_delete s p)
            \<and> post_pk p \<notin> post_pk ` set (posts (post_delete s p)))
       \<and> p \<in> set (posts s)
       \<and> (post_pk p \<notin> post_pk ` set (posts (snd (handle_delete_ap e s data))) \<longrightarrow>
            getitem data ''actor'' = Inr (JStr (actor_uri a)))"
proof -
  have in_s: "p \<in> set (posts s)"
    using assms(3) by (auto dest: objects_get_in)
  have gone: "post_pk p \<notin> post_pk ` set (posts (post_delete s p))"
    by (auto simp: post_delete_def)
  have pre: "handle_delete_ap e s data =
      (case getitem data ''actor'' of
         Inl err \<Rightarrow> (Inl err, s)
       | Inr actor \<Rightarrow> if actor \<noteq> JStr (actor_uri a) then (Inl ValueError, s)
                      else (Inr (), post_delete s p))"
    using assms
    by (simp add: handle_delete_ap_def by_object_uri_local_only py_eq_JStr split: sum.splits)
  show ?thesis
    using in_s gone by (auto simp: pre split: sum.splits)
qed

theorem handle_delete_ap_actor_witness:
  "objects_get (\<lambda>q. object_uri q = char_value demo_env (JStr ''https://example.com/@alice/posts/1/''))
        (posts demo_store_posted) = Inr demo_post
   \<and> post_author demo_store_posted demo_post = Inr alice
   \<and> handle_delete_ap demo_env demo_store_posted
        (demo_delete ''https://example.com/@bob/'' ''https://example.com/@alice/posts/1/'')
      = (Inl ValueError, demo_store_posted)
   \<and> handle_delete_ap demo_env demo_store_posted
        (demo_delete ''https://example.com/@alice/'' ''https://example.com/@alice/posts/1/'')
      = (Inr (), demo_store)"
  using handle_delete_ap_actor
          [of "demo_delete ''https://example.com/@bob/'' ''https://example.com/@alice/posts/1/''"
              "JObj (Map.empty(''id'' \<mapsto> JStr ''https://example.com/@alice/posts/1/''))"
              "JStr ''https://example.com/@alice/posts/1/''" demo_env demo_store_posted demo_post alice]
        handle_delete_ap_actor
          [of "demo_delete ''https://example.com/@alice/'' ''https://example.com/@alice/posts/1/''"
              "JObj (Map.empty(''id'' \<mapsto> JStr ''https://example.com/@alice/posts/1/''))"
              "JStr ''https://example.com/@alice/posts/1/''" demo_env demo_store_posted demo_post alice]
  by (simp add: demo_delete_def demo_store_posted_def demo_post_def demo_store_def
        objects_get_def post_author_def alice_def bob_def carol_def post_delete_def)

subsection \<open>Outbound documents\<close>

lemma to_ap_lookup:
  "to_ap e a p ''type'' = Some (JStr ''Note'')"
  "to_ap e a p ''id'' = Some (json_opt (object_uri p))"
  "to_ap e a p ''published'' = Some (JStr (format_ld_date e (published p)))"
  "to_ap e a p ''attributedTo'' = Some (JStr (actor_uri a))"
  "to_ap e a p ''content'' = Some (JStr (safe_content e p))"
  "to_ap e a p ''to'' = Some (JStr ''as:Public'')"
  "to_ap e a p ''as:sensitive'' = Some (JBool (sensitive p))"
  "to_ap e a p ''url'' = Some (if local p then JStr (urls_view_nice e a p) else json_opt (url p))"
  "to_ap e a p ''summary'' = (if truthy (summary p) then Some (JStr (the (summary p))) else None)"
  by (simp_all add: to_ap_def Let_def)

text \<open>
  C4, as amended. For every post, \<^verbatim>\<open>to_ap\<close> returns a dictionary whose keys are
  exactly \<^verbatim>\<open>type\<close>, \<^verbatim>\<open>id\<close>, \<^verbatim>\<open>published\<close>, \<^verbatim>\<open>attributedTo\<close>, \<^verbatim>\<open>content\<close>, \<^verbatim>\<open>to\<close>,
  \<^verbatim>\<open>as:sensitive\<close> and \<^verbatim>\<open>url\<close>, plus \<^verbatim>\<open>summary\<close> exactly when the post's summary is
  a non-empty string; its \<^verbatim>\<open>type\<close> is \<^verbatim>\<open>Note\<close>. For every post whose \<open>object_uri\<close> is
  set, \<^verbatim>\<open>to_create_ap\<close> returns the envelope with keys \<^verbatim>\<open>type\<close> (\<^verbatim>\<open>Create\<close>), \<^verbatim>\<open>id\<close>
  (the note's id followed by \<^verbatim>\<open>#create\<close>), \<^verbatim>\<open>actor\<close> (the author's actor URI) and
  \<^verbatim>\<open>object\<close> (the note).
\<close>

theorem to_ap_document:
  "dom (to_ap e a p) =
     {''type'', ''id'', ''published'', ''attributedTo'', ''content'', ''to'',
      ''as:sensitive'', ''url''} \<union> (if truthy (summary p) then {''summary''} else {})
   \<and> to_ap e a p ''type'' = Some (JStr ''Note'')
   \<and> to_ap e a p ''id'' = Some (json_opt (object_uri p))
   \<and> (\<forall>u. object_uri p = Some u \<longrightarrow>
         (\<exists>doc. to_create_ap e a p = Inr doc
            \<and> dom doc = {''type'', ''id'', ''actor'', ''object''}
            \<and> doc ''type'' = Some (JStr ''Create'')
            \<and> doc ''id'' = Some (JStr (u @ ''#create''))
            \<and> doc ''actor'' = Some (JStr (actor_uri a))
            \<and> doc ''object'' = Some (JObj (to_ap e a p))))"
  by (auto simp: dom_to_ap to_ap_lookup to_create_ap_def)

theorem to_ap_document_witness:
  "object_uri demo_post = Some ''https://example.com/@alice/posts/1/''
   \<and> (\<exists>doc. to_create_ap demo_env alice demo_post = Inr doc
         \<and> doc ''id'' = Some (JStr ''https://example.com/@alice/posts/1/#create'')
         \<and> doc ''object'' = Some (JObj (to_ap demo_env alice demo_post)))
   \<and> dom (to_ap demo_env alice demo_post) =
       {''type'', ''id'', ''published'', ''attributedTo'', ''content'', ''to'',
        ''as:sensitive'', ''url''}"
  using to_ap_document[of demo_env alice demo_post]
  by (auto simp: demo_post_def)

text \<open>
  The claim as first stated covers every post. A post whose \<open>object_uri\<close> is
  null has no envelope: \<^verbatim>\<open>to_create_ap\<close> raises TypeError.
\<close>

theorem to_create_ap_null_object_uri:
  "to_create_ap demo_env alice (demo_post\<lparr>object_uri := None\<rparr>) = Inl TypeError"
  by (simp add: to_create_ap_def)

subsection \<open>Remote fetch\<close>

lemma char_value_httpx [simp]: "char_value (e\<lparr>httpx_get := g\<rparr>) v = char_value e v"
  by (cases v) simp_all

lemma sanitize_json_httpx [simp]: "sanitize_json (e\<lparr>httpx_get := g\<rparr>) v = sanitize_json e v"
  by (cases v) simp_all

lemma by_ap_update_httpx [simp]:
  "by_ap_update (e\<lparr>httpx_get := g\<rparr>) s m p = by_ap_update e s m p"
  by (simp add: by_ap_update_def save_def split: sum.splits)

lemma by_ap_create_httpx [simp]:
  "by_ap_create (e\<lparr>httpx_get := g\<rparr>) s m i = by_ap_create e s m i"
  by (simp add: by_ap_create_def by_actor_uri_def Post_def
        split: sum.splits option.splits prod.splits error.splits)

lemma by_ap_httpx: "by_ap (e\<lparr>httpx_get := g\<rparr>) s d c u = by_ap e s d c u"
  by (cases d) (simp_all split: sum.splits option.splits prod.splits error.splits)

text \<open>
  C7. When no stored post matches and \<^verbatim>\<open>fetch\<close> is set, \<^verbatim>\<open>by_object_uri\<close> sends one
  request: a GET of the URI with the single header \<^verbatim>\<open>Accept: application/json\<close>,
  following redirects; the outcome depends on the network through the answer
  to that request alone. A response with a status from 200 to 299 has its body
  parsed, canonicalised and handed to \<^verbatim>\<open>by_ap\<close>; for every other response the
  lookup raises DoesNotExist and the store is unchanged.
\<close>

theorem by_object_uri_fetch:
  assumes "filter (\<lambda>q. object_uri q = char_value e uri) (posts s) = []"
    and "httpx_get e (fetch_request uri) = Inr r"
  shows "request_url (fetch_request uri) = uri
       \<and> request_headers (fetch_request uri) = [(''Accept'', ''application/json'')]
       \<and> follow_redirects (fetch_request uri)
       \<and> (\<forall>g. g (fetch_request uri) = Inr r \<longrightarrow>
             by_object_uri (e\<lparr>httpx_get := g\<rparr>) s uri True = by_object_uri e s uri True)
       \<and> by_object_uri e s uri True =
           (if 200 \<le> status_code r \<and> status_code r < 300
            then (case response_json r of
                    Inl err \<Rightarrow> (Inl err, s)
                  | Inr body \<Rightarrow>
                      (case canonicalise e body of
                         Inl err \<Rightarrow> (Inl err, s)
                       | Inr doc \<Rightarrow> by_ap e s doc True True))
            else (Inl DoesNotExist, s))"
  using assms
  by (auto simp: by_object_uri_def objects_get_none fetch_request_def by_ap_httpx
        split: sum.splits)

theorem by_object_uri_fetch_witness:
  "filter (\<lambda>q. object_uri q = char_value demo_env (JStr ''https://remote.test/notes/7''))
      (posts demo_store) = []
   \<and> httpx_get demo_env (fetch_request (JStr ''https://remote.test/notes/7''))
       = Inr \<lparr>status_code = 404, response_json = Inl ValueError\<rparr>
   \<and> by_object_uri demo_env demo_store (JStr ''https://remote.test/notes/7'') True
       = (Inl DoesNotExist, demo_store)
   \<and> by_object_uri
        (demo_env\<lparr>httpx_get := (\<lambda>r. Inr \<lparr>status_code = 200, response_json = Inr (JObj demo_note)\<rparr>)\<rparr>)
        demo_store (JStr ''https://remote.test/notes/7'') True
       = (Inr demo_remote_post, demo_store_received)"
proof -
  let ?uri = "JStr ''https://remote.test/notes/7''"
  let ?ok = "\<lparr>status_code = 200, response_json = Inr (JObj demo_note)\<rparr>"
  let ?e = "demo_env\<lparr>httpx_get := (\<lambda>r. Inr ?ok)\<rparr>"
  have none: "filter (\<lambda>q. object_uri q = char_value demo_env ?uri) (posts demo_store) = []"
    by (simp add: demo_store_def)
  have none': "filter (\<lambda>q. object_uri q = char_value ?e ?uri) (posts demo_store) = []"
    by (simp add: demo_store_def)
  have r404: "httpx_get demo_env (fetch_request ?uri)
      = Inr \<lparr>status_code = 404, response_json = Inl ValueError\<rparr>"
    by (simp add: demo_env_def)
  have r200: "httpx_get ?e (fetch_request ?uri) = Inr ?ok" by simp
  have canon: "canonicalise demo_env (JObj demo_note) = Inr (JObj demo_note)"
    by (simp add: demo_env_def)
  have a: "by_object_uri demo_env demo_store ?uri True = (Inl DoesNotExist, demo_store)"
    using by_object_uri_fetch[OF none r404] by simp
  have b: "by_object_uri ?e demo_store ?uri True = (Inr demo_remote_post, demo_store_received)"
    using by_object_uri_fetch[OF none' r200]
    by (simp add: canon by_ap_httpx demo_by_ap del: by_ap.simps)
  show ?thesis using none r404 a b by (intro conjI)
qed


subsection \<open>Fan-out of a new post\<close>

lemma afetch_full_row:
  assumes "afetch_full s p = Inr (q, a)"
  shows "post_pk q = post_pk p \<and> author_id q = identity_pk a
       \<and> q \<in> set (posts s) \<and> a \<in> set (identities s)"
  using objects_get_in[OF assms[unfolded afetch_full_def]] by auto

lemma inbound_follows_row:
  assumes "(f, src, tgt) \<in> set (inbound_follows s a)"
  shows "source_id f = identity_pk src \<and> target_id f = identity_pk a
       \<and> identity_pk tgt = identity_pk a"
  using assms by (auto simp: inbound_follows_def)

lemma transition_perform_pks:
  "map post_pk (posts (transition_perform s p st)) = map post_pk (posts s)"
  by (simp add: transition_perform_def o_def if_distrib [of post_pk] cong: if_cong)

text \<open>
  C1. A stored post \<open>p\<close> in state \<^verbatim>\<open>new\<close> whose author \<open>a\<close> is local and has exactly
  two inbound follows, from the local identities \<open>i1\<close> and \<open>i2\<close>. One run of
  \<^verbatim>\<open>handle_new\<close> returns \<^verbatim>\<open>fanned_out\<close> and appends exactly three FanOut rows of
  type post that reference \<open>p\<close>: one for \<open>i1\<close>, one for \<open>i2\<close> and one for \<open>a\<close>.
  \<^verbatim>\<open>new\<close> to \<^verbatim>\<open>fanned_out\<close> is a declared edge, so the scheduler's run commits it;
  after that the post's row is in \<^verbatim>\<open>fanned_out\<close>, and a further run on it runs no
  handler and changes nothing.
\<close>

theorem handle_new_fans_out:
  assumes fetch: "afetch_full s p = Inr (q, a)"
    and author_local: "identity_local a"
    and followers: "inbound_follows s a = [(f1, i1, t1), (f2, i2, t2)]"
    and locals: "identity_local i1" "identity_local i2"
    and st: "state p = new"
    and s': "s' = s\<lparr>fan_outs := fan_outs s @
               [\<lparr>identity_id = identity_pk i1, fan_out_type = Types_post, subject_post = post_pk p\<rparr>,
                \<lparr>identity_id = identity_pk i2, fan_out_type = Types_post, subject_post = post_pk p\<rparr>,
                \<lparr>identity_id = identity_pk a, fan_out_type = Types_post, subject_post = post_pk p\<rparr>]\<rparr>"
  shows "handle_new s p = (Inr fanned_out, s')
       \<and> fanned_out \<in> set (transitions_to new)
       \<and> scheduler_run s p = (Inr (), transition_perform s' p fanned_out)
       \<and> (\<exists>r \<in> set (posts (transition_perform s' p fanned_out)). post_pk r = post_pk p)
       \<and> (\<forall>r \<in> set (posts (transition_perform s' p fanned_out)). post_pk r = post_pk p \<longrightarrow>
             state r = fanned_out
             \<and> scheduler_run (transition_perform s' p fanned_out) r
                 = (Inr (), transition_perform s' p fanned_out))"
proof -
  have row: "post_pk q = post_pk p" "author_id q = identity_pk a" "q \<in> set (posts s)"
    using afetch_full_row[OF fetch] by auto
  have "(f1, i1, t1) \<in> set (inbound_follows s a)" "(f2, i2, t2) \<in> set (inbound_follows s a)"
    by (simp_all add: followers)
  then have src: "source_id f1 = identity_pk i1" "source_id f2 = identity_pk i2"
    by (auto dest: inbound_follows_row)
  have fan: "afan_out s p = (Inr (), s')"
    by (simp add: afan_out_def fetch followers locals author_local fan_out_create_def row src s')
  have hn: "handle_new s p = (Inr fanned_out, s')"
    by (simp add: handle_new_def fan)
  have run: "scheduler_run s p = (Inr (), transition_perform s' p fanned_out)"
    by (simp add: scheduler_run_def st hn)
  have ex: "\<exists>r \<in> set (posts (transition_perform s' p fanned_out)). post_pk r = post_pk p"
  proof -
    have "post_pk q \<in> post_pk ` set (posts s)"
      using row(3) by (rule imageI)
    then have "post_pk p \<in> set (map post_pk (posts s'))"
      by (simp add: row(1) s')
    then have "post_pk p \<in> set (map post_pk (posts (transition_perform s' p fanned_out)))"
      by (simp only: transition_perform_pks)
    then show ?thesis by auto
  qed
  have after: "\<forall>r \<in> set (posts (transition_perform s' p fanned_out)). post_pk r = post_pk p \<longrightarrow>
             state r = fanned_out
             \<and> scheduler_run (transition_perform s' p fanned_out) r
                 = (Inr (), transition_perform s' p fanned_out)"
    by (auto simp: transition_perform_def scheduler_run_def)
  show ?thesis using hn run ex after by simp
qed

theorem handle_new_fans_out_witness:
  "afetch_full demo_store_posted demo_post = Inr (demo_post, alice)
   \<and> identity_local alice
   \<and> inbound_follows demo_store_posted alice
       = [(\<lparr>follow_pk = 1, source_id = 2, target_id = 1\<rparr>, bob, alice),
          (\<lparr>follow_pk = 2, source_id = 3, target_id = 1\<rparr>, carol, alice)]
   \<and> identity_local bob \<and> identity_local carol \<and> state demo_post = new
   \<and> handle_new demo_store_posted demo_post =
       (Inr fanned_out,
        demo_store_posted\<lparr>fan_outs :=
          [\<lparr>identity_id = 2, fan_out_type = Types_post, subject_post = 1\<rparr>,
           \<lparr>identity_id = 3, fan_out_type = Types_post, subject_post = 1\<rparr>,
           \<lparr>identity_id = 1, fan_out_type = Types_post, subject_post = 1\<rparr>]\<rparr>)"
  using handle_new_fans_out[of demo_store_posted demo_post demo_post alice
          "\<lparr>follow_pk = 1, source_id = 2, target_id = 1\<rparr>" bob alice
          "\<lparr>follow_pk = 2, source_id = 3, target_id = 1\<rparr>" carol alice]
  by (simp add: afetch_full_def inbound_follows_def objects_get_def demo_store_posted_def
        demo_store_def demo_post_def alice_def bob_def carol_def)


subsection \<open>Round trip of a local post\<close>

lemma fold_max_bounds: "(m::nat) \<le> fold max ks m \<and> (\<forall>k \<in> set ks. k \<le> fold max ks m)"
proof (induction ks arbitrary: m)
  case Nil
  then show ?case by simp
next
  case (Cons k ks)
  have "max k m \<le> fold max ks (max k m)" using Cons.IH by blast
  then show ?case using Cons.IH[of "max k m"] by auto
qed

lemma next_pk_fresh: "k \<in> set ks \<Longrightarrow> k < next_pk ks"
  using fold_max_bounds[of 0 ks] by (auto simp: next_pk_def)

lemma map_replace_absent:
  "\<forall>q \<in> set rows. post_pk q \<noteq> k \<Longrightarrow> map (\<lambda>q. if post_pk q = k then p else q) rows = rows"
  by (induction rows) auto

lemma filter_other_pk:
  "\<forall>q \<in> set rows. post_pk q \<noteq> k \<Longrightarrow>
   filter (\<lambda>q. post_pk q \<noteq> k \<and> P q) rows = filter P rows"
  by (induction rows) auto

lemma create_local_result:
  assumes "create_local e s author c sm = (Inr p, s1)"
  shows "s1 = s\<lparr>posts := posts s @ [p]\<rparr>"
    and "\<forall>q \<in> set (posts s). post_pk q \<noteq> post_pk p"
    and "object_uri p = Some (urls_object_uri author p)"
    and "filter (\<lambda>q. object_uri q = object_uri p) (posts s) = []"
    and "local p \<and> state p = new \<and> author_id p = identity_pk author \<and> content p = c
       \<and> summary p = (if truthy sm then sm else None) \<and> sensitive p = truthy sm
       \<and> url p = Some (urls_view_nice e author p)"
proof -
  define k where "k = next_pk (map post_pk (posts s))"
  define p0 where "p0 = ((Post e (identity_pk author) c True)
               \<lparr>summary := (if truthy sm then sm else None), sensitive := truthy sm\<rparr>)\<lparr>post_pk := k\<rparr>"
  define p1 where "p1 = p0\<lparr>object_uri := Some (urls_object_uri author p0),
                            url := Some (urls_view_nice e author p0), updated := now e\<rparr>"
  have fresh: "\<forall>q \<in> set (posts s). post_pk q \<noteq> k"
  proof
    fix q assume "q \<in> set (posts s)"
    then have "post_pk q \<in> set (map post_pk (posts s))" by simp
    then have "post_pk q < k" unfolding k_def by (rule next_pk_fresh)
    then show "post_pk q \<noteq> k" by simp
  qed
  have pk: "post_pk p0 = k" "post_pk p1 = k" by (simp_all add: p0_def p1_def)
  have urls: "urls_object_uri author p1 = urls_object_uri author p0"
    "urls_view_nice e author p1 = urls_view_nice e author p0"
    by (simp_all add: urls_object_uri_def urls_view_nice_def pk)
  have created: "objects_create s ((Post e (identity_pk author) c True)
               \<lparr>summary := (if truthy sm then sm else None), sensitive := truthy sm\<rparr>)
        = (Inr p0, s\<lparr>posts := posts s @ [p0]\<rparr>)"
    using assms
    by (auto simp: create_local_def objects_create_def Let_def p0_def k_def
          split: if_splits)
  have uniq: "unique_ok (posts s @ [p0]) p1"
    using assms created
    by (auto simp: create_local_def save_def Let_def p1_def split: if_splits prod.splits sum.splits)
  then have no_dup: "filter (\<lambda>q. object_uri q = object_uri p1) (posts s) = []"
    using fresh filter_other_pk[OF fresh, of "\<lambda>q. object_uri q = object_uri p1"]
    by (simp add: unique_ok_def p1_def pk)
  have saved: "save e (s\<lparr>posts := posts s @ [p0]\<rparr>)
          (p0\<lparr>object_uri := Some (urls_object_uri author p0),
              url := Some (urls_view_nice e author p0)\<rparr>)
        = (Inr p1, s\<lparr>posts := posts s @ [p1]\<rparr>)"
    using uniq fresh map_replace_absent[OF fresh]
    by (simp add: save_def Let_def p1_def pk)
  have res: "p = p1" "s1 = s\<lparr>posts := posts s @ [p1]\<rparr>"
    using assms by (auto simp: create_local_def created saved)
  show "s1 = s\<lparr>posts := posts s @ [p]\<rparr>" by (simp add: res)
  show "\<forall>q \<in> set (posts s). post_pk q \<noteq> post_pk p" using fresh by (simp add: res pk)
  show "object_uri p = Some (urls_object_uri author p)"
    by (simp add: res urls) (simp add: p1_def)
  show "filter (\<lambda>q. object_uri q = object_uri p) (posts s) = []"
    using no_dup by (simp add: res)
  show "local p \<and> state p = new \<and> author_id p = identity_pk author \<and> content p = c
       \<and> summary p = (if truthy sm then sm else None) \<and> sensitive p = truthy sm
       \<and> url p = Some (urls_view_nice e author p)"
    by (simp add: res urls) (simp add: p1_def p0_def Post_def)
qed

lemma by_ap_existing:
  assumes rows: "posts s1 = rows @ [p]"
    and fresh: "\<forall>q \<in> set rows. post_pk q \<noteq> post_pk p"
    and uri: "object_uri p = Some u"
    and nodup: "filter (\<lambda>q. object_uri q = Some u) rows = []"
    and doc: "m ''id'' = Some (JStr u)" "m ''content'' = Some (JStr c)"
      "boolean_value (dict_get m ''as:sensitive'' (JBool False)) = Inr b"
    and parse: "update \<Longrightarrow> \<exists>t. parse_ld_date e (dict_get m ''published'' JNull) = Inr t"
  shows "\<exists>p2 s2. by_ap e s1 (JObj m) create update = (Inr p2, s2)
           \<and> post_pk p2 = post_pk p \<and> object_uri p2 = object_uri p
           \<and> posts s2 = rows @ [p2]"
proof -
  have found: "objects_get (\<lambda>q. object_uri q = Some u) (rows @ [p]) = Inr p"
    by (simp add: objects_get_def nodup uri)
  show ?thesis
  proof (cases update)
    case False
    then show ?thesis by (simp add: doc found rows)
  next
    case True
    then obtain t where t: "parse_ld_date e (dict_get m ''published'' JNull) = Inr t"
      using parse by blast
    define p2 where "p2 = p\<lparr>content := sanitize_post e c,
                    summary := char_value e (dict_get m ''summary'' JNull),
                    sensitive := b,
                    url := char_value e (dict_get m ''url'' JNull),
                    published := t, updated := now e\<rparr>"
    have pk: "post_pk p2 = post_pk p" and u2: "object_uri p2 = Some u"
      by (simp_all add: p2_def uri)
    have "filter (\<lambda>q. post_pk q \<noteq> post_pk p \<and> object_uri q = Some u) rows = []"
      using nodup by (induction rows) (auto split: if_splits)
    then have uniq: "unique_ok (posts s1) p2"
      by (simp add: unique_ok_def u2 pk rows)
    have "save e s1 (p\<lparr>content := sanitize_post e c,
                    summary := char_value e (dict_get m ''summary'' JNull),
                    sensitive := b,
                    url := char_value e (dict_get m ''url'' JNull),
                    published := t\<rparr>) = (Inr p2, s1\<lparr>posts := rows @ [p2]\<rparr>)"
      using uniq map_replace_absent[OF fresh]
      by (simp add: save_def Let_def p2_def[symmetric] rows pk)
    then have "by_ap e s1 (JObj m) create update = (Inr p2, s1\<lparr>posts := rows @ [p2]\<rparr>)"
      using True by (simp add: doc found rows by_ap_update_def t)
    then show ?thesis using pk u2 uri by simp
  qed
qed


lemma demo_created:
  "create_local demo_env demo_store alice ''hello'' None = (Inr demo_post, demo_store_posted)"
  by (simp add: create_local_def objects_create_def save_def Let_def Post_def demo_env_def
        demo_store_def demo_store_posted_def demo_post_def alice_def bob_def carol_def
        next_pk_def unique_ok_def urls_object_uri_def urls_view_nice_def
        str_nat.simps digit_char_def)



subsection \<open>Inbound Create: the state of the stored post\<close>

lemma save_result:
  assumes "save e s p0 = (Inr p, s1)"
  shows "post_pk p = post_pk p0 \<and> post_pk p \<in> set (map post_pk (posts s1))"
  using assms by (auto simp: save_def Let_def split: if_splits)

lemma save_fan_outs: "save e s p0 = (r, s1) \<Longrightarrow> fan_outs s1 = fan_outs s"
  by (auto simp: save_def Let_def split: if_splits)

lemma objects_create_fan_outs: "objects_create s p0 = (r, s1) \<Longrightarrow> fan_outs s1 = fan_outs s"
  by (auto simp: objects_create_def Let_def split: if_splits)

lemma by_actor_uri_fan_outs: "by_actor_uri e s u c = (r, s1) \<Longrightarrow> fan_outs s1 = fan_outs s"
  by (auto simp: by_actor_uri_def Let_def split: option.splits sum.splits error.splits if_splits)

lemma by_ap_update_result:
  assumes "by_ap_update e s m p0 = (Inr p, s1)"
  shows "post_pk p = post_pk p0 \<and> post_pk p \<in> set (map post_pk (posts s1))"
  using assms
  by (auto simp: by_ap_update_def split: sum.splits dest!: save_result)

lemma by_ap_update_fan_outs: "by_ap_update e s m p0 = (r, s1) \<Longrightarrow> fan_outs s1 = fan_outs s"
  by (auto simp: by_ap_update_def split: sum.splits dest: save_fan_outs)

lemma by_ap_create_fan_outs: "by_ap_create e s m i = (r, s1) \<Longrightarrow> fan_outs s1 = fan_outs s"
  by (auto simp: by_ap_create_def split: sum.splits prod.splits
        dest: by_actor_uri_fan_outs)
     (metis by_actor_uri_fan_outs objects_create_fan_outs)

lemma by_ap_fan_outs: "by_ap e s d c u = (r, s1) \<Longrightarrow> fan_outs s1 = fan_outs s"
proof (cases d)
  case (JObj m)
  assume "by_ap e s d c u = (r, s1)"
  then show ?thesis
    by (auto simp: JObj split: sum.splits option.splits error.splits prod.splits if_splits
          dest: by_ap_create_fan_outs by_ap_update_fan_outs)
       (metis by_ap_create_fan_outs by_ap_update_fan_outs)
qed simp_all

lemma by_ap_row:
  assumes "by_ap e s d c u = (Inr p, s1)"
  shows "post_pk p \<in> set (map post_pk (posts s1))"
proof (cases d)
  case (JObj m)
  show ?thesis
    using assms
    by (auto simp: JObj split: sum.splits option.splits error.splits prod.splits if_splits
          dest!: by_ap_update_result objects_get_in)
qed (use assms in simp_all)

lemma fold_add_post:
  "posts (fold (\<lambda>(f, src) s'. add_post s' src p) xs s) = posts s
   \<and> fan_outs (fold (\<lambda>(f, src) s'. add_post s' src p) xs s) = fan_outs s"
  by (induction xs arbitrary: s) (auto simp: add_post_def)

lemma save_keeps:
  assumes "save e s p0 = (Inr p, s1)"
  shows "state p = state p0 \<and> local p = local p0"
  using assms by (auto simp: save_def Let_def split: if_splits)

lemma by_ap_update_keeps:
  assumes "by_ap_update e s m p0 = (Inr p, s1)"
  shows "state p = state p0 \<and> local p = local p0"
  using assms
  by (auto simp: by_ap_update_def split: sum.splits dest!: save_keeps)

lemma by_ap_create_new:
  assumes "by_ap_create e s m i = (Inr p, s1)"
  shows "state p = new \<and> \<not> local p"
  using assms
  by (auto simp: by_ap_create_def objects_create_def Post_def Let_def
        split: sum.splits prod.splits if_splits)

lemma by_ap_created_new:
  assumes "by_ap e s obj True True = (Inr p, s1)"
    and "getitem obj ''id'' = Inr i"
    and "filter (\<lambda>q. object_uri q = char_value e i) (posts s) = []"
  shows "state p = new \<and> \<not> local p"
proof (cases obj)
  case (JObj m)
  have none: "objects_get (\<lambda>q. object_uri q = char_value e i) (posts s) = Inl DoesNotExist"
    using assms(3) by (rule objects_get_none)
  from assms(1,2) obtain p0 s0 where
    "by_ap_create e s m i = (Inr p0, s0)" "by_ap_update e s0 m p0 = (Inr p, s1)"
    by (auto simp: JObj none split: option.splits prod.splits sum.splits)
  then show ?thesis
    using by_ap_create_new[of e s m i p0 s0] by_ap_update_keeps[of e s0 m p0 p s1] by simp
qed (use assms(2) in simp_all)

lemma save_stored:
  assumes "save e s p0 = (Inr p, s1)"
  shows "p \<in> set (posts s1)"
proof (cases "post_pk (p0\<lparr>updated := now e\<rparr>) \<in> set (map post_pk (posts s))")
  case True
  then obtain q where q: "q \<in> set (posts s)" "post_pk q = post_pk p0" by auto
  from assms True have p: "p = p0\<lparr>updated := now e\<rparr>"
    and s1: "posts s1 = map (\<lambda>q. if post_pk q = post_pk p0 then p else q) (posts s)"
    by (auto simp: save_def Let_def split: if_splits)
  have "(\<lambda>q. if post_pk q = post_pk p0 then p else q) q \<in> set (posts s1)"
    unfolding s1 set_map using q(1) by (rule imageI)
  then show ?thesis by (simp add: q(2))
next
  case False
  with assms show ?thesis by (auto simp: save_def Let_def split: if_splits)
qed

lemma by_ap_update_stored:
  assumes "by_ap_update e s m p0 = (Inr p, s1)"
  shows "p \<in> set (posts s1)"
  using assms
  by (auto simp: by_ap_update_def split: sum.splits dest!: save_stored)

lemma by_ap_stored:
  assumes "by_ap e s d c u = (Inr p, s1)"
  shows "p \<in> set (posts s1)"
proof (cases d)
  case (JObj m)
  show ?thesis
    using assms
    by (auto simp: JObj split: sum.splits option.splits error.splits prod.splits if_splits
          dest!: by_ap_update_stored objects_get_in)
qed (use assms in simp_all)

text \<open>
  C9, as amended. When \<^verbatim>\<open>handle_create_ap\<close> accepts a Create (it returns
  normally), the post \<^verbatim>\<open>by_ap\<close> returned for the Create's object is stored, and
  \<^verbatim>\<open>transition_perform\<close> has forced it into \<^verbatim>\<open>fanned_out\<close> by the time the call
  returns. \<^verbatim>\<open>fanned_out\<close> has no handler and no outgoing edge, so a scheduler run on
  the post runs nothing; and the call itself has created no FanOut row. A post
  that \<^verbatim>\<open>by_ap\<close> had to create, because no stored post had the object's id, is a
  remote post in state \<^verbatim>\<open>new\<close> as \<^verbatim>\<open>by_ap\<close> returns it. That post is a row of the
  store \<^verbatim>\<open>by_ap\<close> leaves; the timeline loop that follows does not touch the posts
  table, so the row stays as \<^verbatim>\<open>by_ap\<close> stored it until \<^verbatim>\<open>transition_perform\<close>, the
  call's last step, produces the final store.
\<close>

theorem handle_create_ap_forces_fanned_out:
  assumes "handle_create_ap e s data = (Inr (), s')"
  shows "\<exists>obj p s1.
           getitem data ''object'' = Inr obj
         \<and> by_ap e s obj True True = (Inr p, s1)
         \<and> (\<forall>i. getitem obj ''id'' = Inr i
                  \<and> filter (\<lambda>q. object_uri q = char_value e i) (posts s) = []
               \<longrightarrow> state p = new \<and> \<not> local p)
         \<and> (\<exists>r \<in> set (posts s'). post_pk r = post_pk p)
         \<and> (\<forall>r \<in> set (posts s'). post_pk r = post_pk p \<longrightarrow>
               state r = fanned_out \<and> scheduler_run s' r = (Inr (), s'))
         \<and> fan_outs s' = fan_outs s
         \<and> handler_for fanned_out = None
         \<and> transitions_to fanned_out = []
         \<and> p \<in> set (posts s1)
         \<and> (\<exists>s2. posts s2 = posts s1 \<and> s' = transition_perform s2 p fanned_out)"
proof -
  from assms obtain obj p s1 a where
    obj: "getitem data ''object'' = Inr obj"
    and ap: "by_ap e s obj True True = (Inr p, s1)"
    and s': "s' = transition_perform
                    (fold (\<lambda>(f, src) s'. add_post s' src p) (local_follows s1 a) s1) p fanned_out"
    by (auto simp: handle_create_ap_def Let_def split: sum.splits if_splits prod.splits)
  define s2 where "s2 = fold (\<lambda>(f, src) s'. add_post s' src p) (local_follows s1 a) s1"
  have s2: "posts s2 = posts s1" "fan_outs s2 = fan_outs s1"
    using fold_add_post[of p "local_follows s1 a" s1] by (simp_all add: s2_def)
  have fo: "fan_outs s' = fan_outs s"
    using by_ap_fan_outs[OF ap] s2 by (simp add: s' s2_def[symmetric] transition_perform_def)
  have "post_pk p \<in> set (map post_pk (posts s2))"
    using by_ap_row[OF ap] s2 by simp
  then have "post_pk p \<in> set (map post_pk (posts s'))"
    by (simp add: s' s2_def[symmetric] transition_perform_pks del: set_map)
  then have ex: "\<exists>r \<in> set (posts s'). post_pk r = post_pk p" by auto
  have all: "\<forall>r \<in> set (posts s'). post_pk r = post_pk p \<longrightarrow>
               state r = fanned_out \<and> scheduler_run s' r = (Inr (), s')"
    by (auto simp: s' transition_perform_def scheduler_run_def)
  have fresh: "\<forall>i. getitem obj ''id'' = Inr i
                  \<and> filter (\<lambda>q. object_uri q = char_value e i) (posts s) = []
               \<longrightarrow> state p = new \<and> \<not> local p"
    using by_ap_created_new[OF ap] by blast
  have stored: "p \<in> set (posts s1)"
    using ap by (rule by_ap_stored)
  have last: "\<exists>s2. posts s2 = posts s1 \<and> s' = transition_perform s2 p fanned_out"
    using s2(1) s' unfolding s2_def[symmetric] by (intro exI[of _ s2] conjI)
  have graph: "handler_for fanned_out = None \<and> transitions_to fanned_out = []" by simp
  show ?thesis
    using obj ap fresh ex all fo graph stored last
    apply -
    apply (rule exI[of _ obj], rule exI[of _ p], rule exI[of _ s1])
    apply (intro conjI)
    apply simp_all
    done
qed

lemma demo_handle_create:
  "handle_create_ap demo_env demo_store demo_create
     = (Inr (), demo_store_received\<lparr>posts := [demo_remote_post\<lparr>state := fanned_out\<rparr>]\<rparr>)"
proof -
  have actor: "getitem demo_create ''actor'' = Inr (JStr ''https://remote.test/@dave'')"
    and obj: "getitem demo_create ''object'' = Inr (JObj demo_note)"
    by (simp_all add: demo_create_def)
  have at: "getitem (JObj demo_note) ''attributedTo'' = Inr (JStr ''https://remote.test/@dave'')"
    by (simp add: demo_note_def)
  have author: "post_author demo_store_received demo_remote_post = Inr dave"
    by (simp add: post_author_def objects_get_def demo_store_received_def demo_remote_post_def
          alice_def bob_def carol_def dave_def)
  have nobody: "local_follows demo_store_received dave = []"
    by (simp add: local_follows_def demo_store_received_def demo_store_def dave_def)
  have forced: "transition_perform demo_store_received demo_remote_post fanned_out
        = demo_store_received\<lparr>posts := [demo_remote_post\<lparr>state := fanned_out\<rparr>]\<rparr>"
    by (simp add: transition_perform_def demo_store_received_def)
  show ?thesis
    by (simp add: handle_create_ap_def actor obj at demo_by_ap author nobody forced py_eq_def
          del: by_ap.simps getitem.simps)
qed

theorem handle_create_ap_forces_fanned_out_witness:
  "handle_create_ap demo_env demo_store demo_create
     = (Inr (), demo_store_received\<lparr>posts := [demo_remote_post\<lparr>state := fanned_out\<rparr>]\<rparr>)
   \<and> fan_outs (demo_store_received\<lparr>posts := [demo_remote_post\<lparr>state := fanned_out\<rparr>]\<rparr>)
       = fan_outs demo_store"
  using handle_create_ap_forces_fanned_out[OF demo_handle_create] demo_handle_create
  by auto

text \<open>
  The claim as first stated has the post in \<^verbatim>\<open>fanned_out\<close> from its creation on.
  The Create below is accepted, and the remote post that \<^verbatim>\<open>by_ap\<close> has created and
  stored for it is in state \<^verbatim>\<open>new\<close>, which has a handler; only the later
  \<^verbatim>\<open>transition_perform\<close> moves it.
\<close>

theorem remote_post_created_in_new:
  "handle_create_ap demo_env demo_store demo_create
     = (Inr (), demo_store_received\<lparr>posts := [demo_remote_post\<lparr>state := fanned_out\<rparr>]\<rparr>)
   \<and> getitem demo_create ''object'' = Inr (JObj demo_note)
   \<and> by_ap demo_env demo_store (JObj demo_note) True True
       = (Inr demo_remote_post, demo_store_received)
   \<and> posts demo_store_received = [demo_remote_post]
   \<and> local demo_remote_post = False
   \<and> state demo_remote_post = new
   \<and> handler_for (state demo_remote_post) = Some handle_new"
  by (simp add: demo_handle_create demo_by_ap del: by_ap.simps)
     (simp add: demo_create_def demo_store_received_def demo_remote_post_def)

text \<open>
  There is no transaction around \<^verbatim>\<open>handle_create_ap\<close>. When a step after the
  insert raises, as the date parser does here, the call is not accepted and the
  remote post stays stored in \<^verbatim>\<open>new\<close>.
\<close>

lemma rejected_create_leaves_new_post:
  "handle_create_ap demo_env demo_store demo_create_undated = (Inl TypeError, demo_store_received)"
proof -
  have actor: "getitem demo_create_undated ''actor'' = Inr (JStr ''https://remote.test/@dave'')"
    and obj: "getitem demo_create_undated ''object'' = Inr (JObj (demo_note(''published'' := None)))"
    by (simp_all add: demo_create_undated_def)
  have at: "getitem (JObj (demo_note(''published'' := None))) ''attributedTo''
      = Inr (JStr ''https://remote.test/@dave'')"
    by (simp add: demo_note_def)
  have ap: "by_ap demo_env demo_store (JObj (demo_note(''published'' := None))) True True
      = (Inl TypeError, demo_store_received)"
    by (simp add: by_ap_create_def by_ap_update_def by_actor_uri_def objects_create_def
          objects_get_def Let_def Post_def next_pk_def unique_ok_def dict_get_def
          demo_env_def demo_store_def demo_note_def demo_remote_post_def
          demo_store_received_def alice_def bob_def carol_def dave_def)
  show ?thesis
    by (simp add: handle_create_ap_def actor obj at ap py_eq_def
          del: by_ap.simps getitem.simps)
qed

subsection \<open>What migration 0013 does to the schema\<close>

lemma migrate_only:
  assumes "migrate st = Inr st'"
  shows "st' = migrated st"
  using assms
  apply (simp add: migrate_def Migration_operations_def split: option.splits if_splits)
  apply (intro ext)
  apply (auto simp: migrated_def altered_models_def Let_def)
  done

lemma migrate_models:
  assumes "migrate st = Inr st'"
  shows "\<forall>m \<in> set altered_models. st m \<noteq> None"
  using assms
  by (simp add: migrate_def Migration_operations_def altered_models_def
        split: option.splits if_splits)

lemma migrate_indexed_columns:
  assumes "migrate st = Inr st'"
    and "m \<in> {''domain'', ''inboxmessage'', ''passwordreset'', ''report''}"
    and "st m = Some ms"
  shows "model_fields ms ''state_locked_until'' \<noteq> None \<and> model_fields ms ''state'' \<noteq> None"
  using assms
  by (auto simp: migrate_def Migration_operations_def stator_index_def
        split: option.splits if_splits)

lemma migrate_applies:
  assumes "\<forall>m \<in> set altered_models. \<exists>ms. st m = Some ms \<and> has_columns ms"
  shows "\<exists>st'. migrate st = Inr st' \<and> (\<forall>m \<in> set altered_models. st' m = migrated st m)"
proof -
  obtain b d f i x p r where
    ms: "st ''block'' = Some b" "st ''domain'' = Some d" "st ''follow'' = Some f"
        "st ''identity'' = Some i" "st ''inboxmessage'' = Some x"
        "st ''passwordreset'' = Some p" "st ''report'' = Some r"
    and ok: "has_columns b" "has_columns d" "has_columns f" "has_columns i" "has_columns x"
        "has_columns p" "has_columns r"
    using assms by (auto simp: altered_models_def)
  show ?thesis
    using ms ok
    by (auto simp: migrate_def Migration_operations_def altered_models_def migrated_def
          stator_index_def has_columns_def)
qed

lemma migrate_result:
  assumes "\<forall>m \<in> set altered_models. \<exists>ms. st m = Some ms \<and> has_columns ms"
  shows "migrate st = Inr (migrated st)"
proof -
  from migrate_applies[OF assms] obtain st' where st': "migrate st = Inr st'"
    by (elim exE conjE)
  from st' have "st' = migrated st" by (rule migrate_only)
  with st' show ?thesis by simp
qed


lemma schema_before_columns:
  "\<forall>m \<in> set altered_models. \<exists>ms. schema_before m = Some ms \<and> has_columns ms"
  by (simp add: altered_models_def schema_before_def has_columns_def stator_table_def)

lemma schema_bare_columns:
  "\<forall>m \<in> set altered_models. \<exists>ms. schema_bare m = Some ms \<and> has_columns ms"
  by (simp add: schema_bare_def has_columns_def stator_table_def)



end
